theory Spec2Isabelle
  imports Main "HOL-Library.Sublist"
begin

section \<open>Python values, exceptions and the log\<close>

text \<open>
  The module \<^verbatim>\<open>cinder/volume/drivers/vmware/read_write_util.py\<close> is Python 2 code.
  Byte strings are \<^typ>\<open>string\<close>. Every exception the model raises is an instance of
  Python's \<^verbatim>\<open>Exception\<close>, so \<^verbatim>\<open>except Exception\<close> catches each of them;
  \<^verbatim>\<open>except StopIteration\<close> catches only the first constructor.
  \<open>LibraryError\<close> stands for whatever an imported library raises (a socket error, an
  \<^verbatim>\<open>HTTPException\<close>, a \<^verbatim>\<open>URLError\<close>, an \<^verbatim>\<open>AddrFormatError\<close>).
\<close>

datatype exn =
    StopIteration
  | NotImplementedError
  | UnboundLocalError string
  | LibraryError string

text \<open>A value that is either a Python \<^verbatim>\<open>int\<close> or a Python \<^verbatim>\<open>str\<close>.\<close>

datatype py_value = PyInt int | PyStr string

text \<open>
  What \<^verbatim>\<open>LOG.exception(exc)\<close> and \<^verbatim>\<open>LOG.debug(... % excep)\<close> write.
\<close>

datatype log_entry = LogException exn | LogDebug exn

definition USER_AGENT :: string where
  "USER_AGENT = ''OpenStack-ESX-Adapter''"

definition READ_CHUNKSIZE :: nat where
  "READ_CHUNKSIZE = 65536"


section \<open>GlanceFileRead\<close>

text \<open>
  \<^verbatim>\<open>self.glance_read_iter\<close> is the iterator handed in: the chunks it has not produced
  yet. \<^verbatim>\<open>self.iter\<close> is the generator \<^verbatim>\<open>get_next()\<close> over it; a generator that
  has returned stays finished, which \<open>iter_finished\<close> records.
\<close>

record GlanceFileRead =
  glance_read_iter :: "string list"
  iter_finished :: bool

definition GlanceFileRead_init :: "string list \<Rightarrow> GlanceFileRead" where
  "GlanceFileRead_init chunks = \<lparr>glance_read_iter = chunks, iter_finished = False\<rparr>"

text \<open>
  One \<^verbatim>\<open>self.iter.next()\<close>: the generator resumes its \<^verbatim>\<open>for data in
  self.glance_read_iter: yield data\<close> loop. When the underlying iterator is exhausted the loop
  ends, the generator returns, and \<^verbatim>\<open>next()\<close> raises \<^verbatim>\<open>StopIteration\<close>, now and on
  every later call.
\<close>

definition get_next :: "GlanceFileRead \<Rightarrow> (exn + string) \<times> GlanceFileRead" where
  "get_next g =
     (if iter_finished g then (Inl StopIteration, g)
      else (case glance_read_iter g of
              [] \<Rightarrow> (Inl StopIteration, g\<lparr>iter_finished := True\<rparr>)
            | data # rest \<Rightarrow> (Inr data, g\<lparr>glance_read_iter := rest\<rparr>)))"

text \<open>
  \<^verbatim>\<open>read(chunk_size)\<close>: \<^verbatim>\<open>try: return self.iter.next()\<close>,
  \<^verbatim>\<open>except StopIteration: return ""\<close>. Any other exception would propagate.
\<close>

definition GlanceFileRead_read :: "GlanceFileRead \<Rightarrow> int \<Rightarrow> (exn + string) \<times> GlanceFileRead" where
  "GlanceFileRead_read g chunk_size =
     (case get_next g of
        (Inr data, g') \<Rightarrow> (Inr data, g')
      | (Inl e, g') \<Rightarrow> (if e = StopIteration then (Inr '''', g') else (Inl e, g')))"

definition GlanceFileRead_close :: "GlanceFileRead \<Rightarrow> GlanceFileRead" where
  "GlanceFileRead_close g = g"

text \<open>
  A caller that calls \<^verbatim>\<open>read\<close> once for each requested size of a list and keeps every
  outcome, in order.
\<close>

fun read_calls :: "GlanceFileRead \<Rightarrow> int list \<Rightarrow> (exn + string) list \<times> GlanceFileRead" where
  "read_calls g [] = ([], g)"
| "read_calls g (n # ns) =
     (case GlanceFileRead_read g n of
        (r, g') \<Rightarrow> (case read_calls g' ns of (rs, g'') \<Rightarrow> (r # rs, g'')))"


section \<open>The libraries the module imports\<close>

text \<open>
  \<^verbatim>\<open>netaddr\<close>, \<^verbatim>\<open>urllib\<close>, \<^verbatim>\<open>urllib2\<close>, \<^verbatim>\<open>urlparse\<close> and \<^verbatim>\<open>httplib\<close> are
  not part of the repository. The model takes what the module calls in them as a parameter:
  a record of functions over a type \<open>'h\<close> of transport handles (an
  \<^verbatim>\<open>httplib.HTTPConnection\<close> for a write stream, the response object of
  \<^verbatim>\<open>urllib2.urlopen\<close> for a read stream). A call on a handle returns the handle as the
  call left it, together with the exception it raised, if any.
\<close>

record request =
  req_url :: string
  req_data :: "string option"
  req_headers :: "(string \<times> string) list"

record 'h libs =
  netaddr_valid_ipv6 :: "string \<Rightarrow> exn + bool"
  urllib_urlencode :: "(string \<times> string) list \<Rightarrow> string"
  urllib_pathname2url :: "string \<Rightarrow> string"
  urlparse_urlparse :: "string \<Rightarrow> string \<times> string \<times> string \<times> string \<times> string \<times> string"
  httplib_HTTPConnection :: "string \<Rightarrow> exn + 'h"
  httplib_HTTPSConnection :: "string \<Rightarrow> exn + 'h"
  conn_putrequest :: "string \<Rightarrow> string \<Rightarrow> 'h \<Rightarrow> exn option \<times> 'h"
  conn_putheader :: "string \<Rightarrow> py_value \<Rightarrow> 'h \<Rightarrow> exn option \<times> 'h"
  conn_endheaders :: "'h \<Rightarrow> exn option \<times> 'h"
  conn_send :: "string \<Rightarrow> 'h \<Rightarrow> exn option \<times> 'h"
  conn_getresponse :: "'h \<Rightarrow> exn option \<times> 'h"
  urllib2_urlopen :: "request \<Rightarrow> exn + 'h"
  handle_close :: "'h \<Rightarrow> exn option \<times> 'h"
  handle_read :: "nat \<Rightarrow> 'h \<Rightarrow> (exn + string) \<times> 'h"
  handle_headers_get :: "'h \<Rightarrow> string \<Rightarrow> string option"


section \<open>VMwareHTTPFile, the base class\<close>

text \<open>
  The class of an object decides which \<^verbatim>\<open>read\<close>, \<^verbatim>\<open>write\<close>, \<^verbatim>\<open>get_size\<close> and
  \<^verbatim>\<open>close\<close> it runs. A write stream's \<^verbatim>\<open>self.conn\<close> and \<^verbatim>\<open>self.file_handle\<close>
  are one and the same connection object, so the record has one field for both.
\<close>

datatype stream_class = VMwareHTTPFile | VMwareHTTPWriteFile | VMwareHTTPReadFile

record 'h stream =
  cls :: stream_class
  eof :: bool
  file_handle :: "'h"

definition VMwareHTTPFile_init :: "stream_class \<Rightarrow> 'h \<Rightarrow> 'h stream" where
  "VMwareHTTPFile_init c fh = \<lparr>cls = c, eof = False, file_handle = fh\<rparr>"

definition set_eof :: "'h stream \<Rightarrow> bool \<Rightarrow> 'h stream" where
  "set_eof s e = s\<lparr>eof := e\<rparr>"

definition get_eof :: "'h stream \<Rightarrow> bool" where
  "get_eof s = eof s"

text \<open>
  \<^verbatim>\<open>close\<close> of the base class: \<^verbatim>\<open>try: self.file_handle.close()\<close>,
  \<^verbatim>\<open>except Exception as exc: LOG.exception(exc)\<close>. The result is the exception that leaves
  \<^verbatim>\<open>close\<close> (none does), the stream, and what was logged.
\<close>

definition VMwareHTTPFile_close ::
  "'h libs \<Rightarrow> 'h stream \<Rightarrow> exn option \<times> 'h stream \<times> log_entry list" where
  "VMwareHTTPFile_close L s =
     (case handle_close L (file_handle s) of
        (None, fh) \<Rightarrow> (None, s\<lparr>file_handle := fh\<rparr>, [])
      | (Some exc, fh) \<Rightarrow> (None, s\<lparr>file_handle := fh\<rparr>, [LogException exc]))"

record cookie =
  name :: string
  "value" :: string

text \<open>
  \<^verbatim>\<open>_build_vim_cookie_headers\<close>: the loop body runs for the first cookie and breaks.
\<close>

fun build_vim_cookie_headers :: "cookie list \<Rightarrow> string" where
  "build_vim_cookie_headers [] = ''''"
| "build_vim_cookie_headers (vim_cookie # _) = name vim_cookie @ ''='' @ value vim_cookie"

definition VMwareHTTPFile_write :: "'h stream \<Rightarrow> string \<Rightarrow> exn option \<times> 'h stream" where
  "VMwareHTTPFile_write s data = (Some NotImplementedError, s)"

definition VMwareHTTPFile_read :: "'h stream \<Rightarrow> int \<Rightarrow> (exn + string) \<times> 'h stream" where
  "VMwareHTTPFile_read s chunk_size = (Inl NotImplementedError, s)"

definition VMwareHTTPFile_get_size :: "'h stream \<Rightarrow> exn + py_value" where
  "VMwareHTTPFile_get_size s = Inl NotImplementedError"

text \<open>
  \<^verbatim>\<open>_is_valid_ipv6\<close>: \<^verbatim>\<open>try: return netaddr.valid_ipv6(address)\<close>,
  \<^verbatim>\<open>except Exception: return False\<close>.
\<close>

definition is_valid_ipv6 :: "'h libs \<Rightarrow> string \<Rightarrow> bool" where
  "is_valid_ipv6 L address =
     (case netaddr_valid_ipv6 L address of Inr b \<Rightarrow> b | Inl e \<Rightarrow> False)"

definition get_soap_url :: "'h libs \<Rightarrow> string \<Rightarrow> string \<Rightarrow> string" where
  "get_soap_url L scheme host =
     (if is_valid_ipv6 L host then scheme @ ''://['' @ host @ '']''
      else scheme @ ''://'' @ host)"


section \<open>Calls into the transport libraries\<close>

text \<open>
  The constructors report, next to their result, the calls they made into \<^verbatim>\<open>httplib\<close>
  and \<^verbatim>\<open>urllib2\<close>, in order. No network activity can happen outside these calls.
\<close>

datatype net_event =
    New_HTTPConnection string
  | New_HTTPSConnection string
  | Call_putrequest string string
  | Call_putheader string py_value
  | Call_endheaders
  | Call_urlopen request

text \<open>A sequence of statements on one connection: the first exception ends it.\<close>

fun run_calls ::
  "(net_event \<times> ('h \<Rightarrow> exn option \<times> 'h)) list \<Rightarrow> 'h \<Rightarrow> exn option \<times> 'h \<times> net_event list" where
  "run_calls [] h = (None, h, [])"
| "run_calls ((ev, f) # calls) h =
     (case f h of
        (Some e, h') \<Rightarrow> (Some e, h', [ev])
      | (None, h') \<Rightarrow> (case run_calls calls h' of (r, h'', evs) \<Rightarrow> (r, h'', ev # evs)))"


section \<open>VMwareHTTPWriteFile\<close>

text \<open>
  The URL of the constructor: \<^verbatim>\<open>'%s/folder/%s' % (soap_url, file_path)\<close>, then
  \<^verbatim>\<open>'?'\<close> and \<^verbatim>\<open>urllib.urlencode(param_list)\<close>. The dictionary
  \<^verbatim>\<open>param_list\<close> is handed over as its two items.
\<close>

definition write_base_url ::
  "'h libs \<Rightarrow> string \<Rightarrow> string \<Rightarrow> string \<Rightarrow> string \<Rightarrow> string \<Rightarrow> string" where
  "write_base_url L host data_center_name datastore_name file_path scheme =
     (let soap_url = get_soap_url L scheme host;
          base_url = soap_url @ ''/folder/'' @ file_path;
          param_list = [(''dcPath'', data_center_name), (''dsName'', datastore_name)]
      in base_url @ ''?'' @ urllib_urlencode L param_list)"

text \<open>
  \<^verbatim>\<open>__init__\<close>: the scheme is read back from the URL with \<^verbatim>\<open>urlparse\<close>; the
  \<^verbatim>\<open>if\<close>/\<^verbatim>\<open>elif\<close> binds \<^verbatim>\<open>conn\<close> for \<^verbatim>\<open>'http'\<close> and \<^verbatim>\<open>'https'\<close> and has
  no \<^verbatim>\<open>else\<close>, so for any other scheme the next statement, \<^verbatim>\<open>conn.putrequest\<close>,
  reads an unbound local variable.
\<close>

definition VMwareHTTPWriteFile_init ::
  "'h libs \<Rightarrow> string \<Rightarrow> string \<Rightarrow> string \<Rightarrow> cookie list \<Rightarrow> string \<Rightarrow> py_value \<Rightarrow> string
     \<Rightarrow> (exn + 'h stream) \<times> net_event list" where
  "VMwareHTTPWriteFile_init L host data_center_name datastore_name cookies file_path file_size scheme =
     (let base_url = write_base_url L host data_center_name datastore_name file_path scheme in
      case urlparse_urlparse L base_url of
        (scheme', netloc, path, params, query, fragment) \<Rightarrow>
          (case (if scheme' = ''http''
                   then Some (httplib_HTTPConnection L netloc, New_HTTPConnection netloc)
                 else if scheme' = ''https''
                   then Some (httplib_HTTPSConnection L netloc, New_HTTPSConnection netloc)
                 else None) of
             None \<Rightarrow> (Inl (UnboundLocalError ''conn''), [])
           | Some (Inl e, ev) \<Rightarrow> (Inl e, [ev])
           | Some (Inr conn, ev) \<Rightarrow>
               (case run_calls
                       [(Call_putrequest ''PUT'' (path @ ''?'' @ query),
                           conn_putrequest L ''PUT'' (path @ ''?'' @ query)),
                        (Call_putheader ''User-Agent'' (PyStr USER_AGENT),
                           conn_putheader L ''User-Agent'' (PyStr USER_AGENT)),
                        (Call_putheader ''Content-Length'' file_size,
                           conn_putheader L ''Content-Length'' file_size),
                        (Call_putheader ''Cookie'' (PyStr (build_vim_cookie_headers cookies)),
                           conn_putheader L ''Cookie'' (PyStr (build_vim_cookie_headers cookies))),
                        (Call_endheaders, conn_endheaders L)]
                       conn of
                  (Some e, conn', evs) \<Rightarrow> (Inl e, ev # evs)
                | (None, conn', evs) \<Rightarrow>
                    (Inr (VMwareHTTPFile_init VMwareHTTPWriteFile conn'), ev # evs))))"

definition VMwareHTTPWriteFile_write ::
  "'h libs \<Rightarrow> 'h stream \<Rightarrow> string \<Rightarrow> exn option \<times> 'h stream" where
  "VMwareHTTPWriteFile_write L s data =
     (case conn_send L data (file_handle s) of (r, fh) \<Rightarrow> (r, s\<lparr>file_handle := fh\<rparr>))"

text \<open>
  \<^verbatim>\<open>close\<close>: \<^verbatim>\<open>try: self.conn.getresponse()\<close>, \<^verbatim>\<open>except Exception as excep:
  LOG.debug(...)\<close>, then the base class's \<^verbatim>\<open>close\<close>. The message is built with
  \<^verbatim>\<open>_\<close>, which the module does not import: the model takes it to be the translation
  function that the \<^verbatim>\<open>cinder\<close> package installs as a builtin, so that logging itself
  does not raise.
\<close>

definition VMwareHTTPWriteFile_close ::
  "'h libs \<Rightarrow> 'h stream \<Rightarrow> exn option \<times> 'h stream \<times> log_entry list" where
  "VMwareHTTPWriteFile_close L s =
     (case conn_getresponse L (file_handle s) of
        (r, fh) \<Rightarrow>
          (case VMwareHTTPFile_close L (s\<lparr>file_handle := fh\<rparr>) of
             (r', s', logged) \<Rightarrow>
               (r', s', (case r of None \<Rightarrow> [] | Some excep \<Rightarrow> [LogDebug excep]) @ logged)))"


section \<open>VMwareHTTPReadFile\<close>

definition read_base_url ::
  "'h libs \<Rightarrow> string \<Rightarrow> string \<Rightarrow> string \<Rightarrow> string \<Rightarrow> string \<Rightarrow> string" where
  "read_base_url L host data_center_name datastore_name file_path scheme =
     (let soap_url = get_soap_url L scheme host;
          base_url = soap_url @ ''/folder/'' @ urllib_pathname2url L file_path;
          param_list = [(''dcPath'', data_center_name), (''dsName'', datastore_name)]
      in base_url @ ''?'' @ urllib_urlencode L param_list)"

text \<open>
  \<^verbatim>\<open>__init__\<close>: the request is built and handed to \<^verbatim>\<open>urllib2.urlopen\<close>; the
  constructor has no test of the scheme of its own. The dictionary \<^verbatim>\<open>headers\<close> is the
  list of its two items.
\<close>

definition read_request ::
  "'h libs \<Rightarrow> string \<Rightarrow> string \<Rightarrow> string \<Rightarrow> cookie list \<Rightarrow> string \<Rightarrow> string \<Rightarrow> request" where
  "read_request L host data_center_name datastore_name cookies file_path scheme =
     (let base_url = read_base_url L host data_center_name datastore_name file_path scheme;
          headers = [(''User-Agent'', USER_AGENT),
                     (''Cookie'', build_vim_cookie_headers cookies)]
      in \<lparr>req_url = base_url, req_data = None, req_headers = headers\<rparr>)"

definition VMwareHTTPReadFile_init ::
  "'h libs \<Rightarrow> string \<Rightarrow> string \<Rightarrow> string \<Rightarrow> cookie list \<Rightarrow> string \<Rightarrow> string
     \<Rightarrow> (exn + 'h stream) \<times> net_event list" where
  "VMwareHTTPReadFile_init L host data_center_name datastore_name cookies file_path scheme =
     (let request = read_request L host data_center_name datastore_name cookies file_path scheme in
      case urllib2_urlopen L request of
        Inl e \<Rightarrow> (Inl e, [Call_urlopen request])
      | Inr conn \<Rightarrow> (Inr (VMwareHTTPFile_init VMwareHTTPReadFile conn), [Call_urlopen request]))"

text \<open>\<^verbatim>\<open>read\<close>: \<^verbatim>\<open>return self.file_handle.read(READ_CHUNKSIZE)\<close>.\<close>

definition VMwareHTTPReadFile_read ::
  "'h libs \<Rightarrow> 'h stream \<Rightarrow> int \<Rightarrow> (exn + string) \<times> 'h stream" where
  "VMwareHTTPReadFile_read L s chunk_size =
     (case handle_read L READ_CHUNKSIZE (file_handle s) of
        (r, fh) \<Rightarrow> (r, s\<lparr>file_handle := fh\<rparr>))"

text \<open>
  \<^verbatim>\<open>get_size\<close>: \<^verbatim>\<open>return self.file_handle.headers.get('Content-Length', -1)\<close>. The
  header's value is a string and is returned as it is; the default is the integer \<open>-1\<close>.
\<close>

definition VMwareHTTPReadFile_get_size :: "'h libs \<Rightarrow> 'h stream \<Rightarrow> exn + py_value" where
  "VMwareHTTPReadFile_get_size L s =
     Inr (case handle_headers_get L (file_handle s) ''Content-Length'' of
            None \<Rightarrow> PyInt (- 1)
          | Some v \<Rightarrow> PyStr v)"


section \<open>Method dispatch\<close>

text \<open>The method an object of each class runs: a subclass's own, else the base class's.\<close>

definition stream_close :: "'h libs \<Rightarrow> 'h stream \<Rightarrow> exn option \<times> 'h stream \<times> log_entry list" where
  "stream_close L s =
     (case cls s of
        VMwareHTTPWriteFile \<Rightarrow> VMwareHTTPWriteFile_close L s
      | _ \<Rightarrow> VMwareHTTPFile_close L s)"

definition stream_write :: "'h libs \<Rightarrow> 'h stream \<Rightarrow> string \<Rightarrow> exn option \<times> 'h stream" where
  "stream_write L s data =
     (case cls s of
        VMwareHTTPWriteFile \<Rightarrow> VMwareHTTPWriteFile_write L s data
      | _ \<Rightarrow> VMwareHTTPFile_write s data)"

definition stream_read :: "'h libs \<Rightarrow> 'h stream \<Rightarrow> int \<Rightarrow> (exn + string) \<times> 'h stream" where
  "stream_read L s chunk_size =
     (case cls s of
        VMwareHTTPReadFile \<Rightarrow> VMwareHTTPReadFile_read L s chunk_size
      | _ \<Rightarrow> VMwareHTTPFile_read s chunk_size)"

definition stream_get_size :: "'h libs \<Rightarrow> 'h stream \<Rightarrow> exn + py_value" where
  "stream_get_size L s =
     (case cls s of
        VMwareHTTPReadFile \<Rightarrow> VMwareHTTPReadFile_get_size L s
      | _ \<Rightarrow> VMwareHTTPFile_get_size s)"

text \<open>
  A caller's use of a stream after its construction: one method call at a time. A call
  that raises leaves the object as the call left it, and the caller may go on.
\<close>

datatype method_call =
    Set_eof bool
  | Get_eof
  | Close
  | Write string
  | Read int
  | Get_size

fun call :: "'h libs \<Rightarrow> method_call \<Rightarrow> 'h stream \<Rightarrow> 'h stream" where
  "call L (Set_eof e) s = set_eof s e"
| "call L Get_eof s = s"
| "call L Close s = fst (snd (stream_close L s))"
| "call L (Write data) s = snd (stream_write L s data)"
| "call L (Read chunk_size) s = snd (stream_read L s chunk_size)"
| "call L Get_size s = s"

fun calls :: "'h libs \<Rightarrow> method_call list \<Rightarrow> 'h stream \<Rightarrow> 'h stream" where
  "calls L [] s = s"
| "calls L (m # ms) s = calls L ms (call L m s)"


section \<open>A stand-in for the libraries\<close>

text \<open>
  Modelled from the spec: \<^verbatim>\<open>urllib.pathname2url\<close> belongs to the Python 2 standard
  library and is not in the repository. The spec says that the read path percent-escapes the
  file path, a space becoming \<^verbatim>\<open>%20\<close> while \<^verbatim>\<open>/\<close> stays. On POSIX the function is
  \<^verbatim>\<open>urllib.quote\<close> with its default \<^verbatim>\<open>safe='/'\<close>: letters, digits, \<^verbatim>\<open>_\<close>,
  \<^verbatim>\<open>.\<close>, \<^verbatim>\<open>-\<close> and the safe characters stay, every other byte becomes \<^verbatim>\<open>%\<close> and
  its two upper-case hexadecimal digits.
\<close>

definition always_safe :: string where
  "always_safe = ''ABCDEFGHIJKLMNOPQRSTUVWXYZabcdefghijklmnopqrstuvwxyz0123456789_.-''"

definition hex_digit :: "nat \<Rightarrow> char" where
  "hex_digit n = ''0123456789ABCDEF'' ! (n mod 16)"

definition quote_byte :: "string \<Rightarrow> char \<Rightarrow> string" where
  "quote_byte safe c =
     (if c \<in> set (always_safe @ safe) then [c]
      else [CHR ''%'', hex_digit (of_char c div 16), hex_digit (of_char c)])"

definition urllib_quote :: "string \<Rightarrow> string \<Rightarrow> string" where
  "urllib_quote safe s = concat (map (quote_byte safe) s)"

definition posix_pathname2url :: "string \<Rightarrow> string" where
  "posix_pathname2url pathname = urllib_quote ''/'' pathname"

text \<open>
  The remaining definitions of this section are a small, deterministic instance of the
  library record, on which the model runs at concrete inputs. A handle remembers whether it
  is open, where it points, what was put on it (the request line under its method, a header
  under its name), and the response a server holds for it.
\<close>

record sim_handle =
  sim_open :: bool
  sim_peer :: string
  sim_sent :: "(string \<times> py_value) list"
  sim_headers :: "(string \<times> string) list"
  sim_body :: string

definition sim_valid_ipv6 :: "string \<Rightarrow> exn + bool" where
  "sim_valid_ipv6 addr =
     (if addr = [] then Inl (LibraryError ''AddrFormatError'')
      else Inr (CHR '':'' \<in> set addr \<and> set addr \<subseteq> set ''0123456789abcdefABCDEF:''))"

fun sim_urlencode :: "(string \<times> string) list \<Rightarrow> string" where
  "sim_urlencode [] = []"
| "sim_urlencode [(k, v)] = k @ ''='' @ v"
| "sim_urlencode ((k, v) # kvs) = k @ ''='' @ v @ ''&'' @ sim_urlencode kvs"

text \<open>
  Splits \<^verbatim>\<open>scheme://netloc/path?query\<close>; the scheme is what stands before the first
  colon.
\<close>

definition sim_urlparse :: "string \<Rightarrow> string \<times> string \<times> string \<times> string \<times> string \<times> string" where
  "sim_urlparse url =
     (let scheme = takeWhile (\<lambda>c. c \<noteq> CHR '':'') url;
          rest = drop 3 (dropWhile (\<lambda>c. c \<noteq> CHR '':'') url);
          netloc = takeWhile (\<lambda>c. c \<noteq> CHR ''/'') rest;
          after = dropWhile (\<lambda>c. c \<noteq> CHR ''/'') rest;
          path = takeWhile (\<lambda>c. c \<noteq> CHR ''?'') after;
          query = drop 1 (dropWhile (\<lambda>c. c \<noteq> CHR ''?'') after)
      in (scheme, netloc, path, [], query, []))"

definition sim_connect :: "string \<Rightarrow> sim_handle" where
  "sim_connect peer =
     \<lparr>sim_open = True, sim_peer = peer, sim_sent = [], sim_headers = [], sim_body = []\<rparr>"

definition sim_put :: "string \<Rightarrow> py_value \<Rightarrow> sim_handle \<Rightarrow> exn option \<times> sim_handle" where
  "sim_put what v h =
     (if sim_open h then (None, h\<lparr>sim_sent := sim_sent h @ [(what, v)]\<rparr>)
      else (Some (LibraryError ''NotConnected''), h))"

definition sim_getresponse :: "sim_handle \<Rightarrow> exn option \<times> sim_handle" where
  "sim_getresponse h =
     (if sim_open h then (None, h) else (Some (LibraryError ''ResponseNotReady''), h))"

text \<open>
  Like \<^verbatim>\<open>urllib2\<close> with its default handlers, the stand-in opens \<^verbatim>\<open>http\<close>,
  \<^verbatim>\<open>https\<close> and \<^verbatim>\<open>ftp\<close> URLs and refuses a URL of an unknown type. The server's
  response (headers and body) is a parameter.
\<close>

definition sim_urlopen :: "(string \<times> string) list \<Rightarrow> string \<Rightarrow> request \<Rightarrow> exn + sim_handle" where
  "sim_urlopen hdrs body req =
     (if takeWhile (\<lambda>c. c \<noteq> CHR '':'') (req_url req) \<in> {''http'', ''https'', ''ftp''}
      then Inr \<lparr>sim_open = True, sim_peer = req_url req, sim_sent = [],
                sim_headers = hdrs, sim_body = body\<rparr>
      else Inl (LibraryError ''unknown url type''))"

definition sim_close :: "sim_handle \<Rightarrow> exn option \<times> sim_handle" where
  "sim_close h = (None, h\<lparr>sim_open := False\<rparr>)"

definition sim_read :: "nat \<Rightarrow> sim_handle \<Rightarrow> (exn + string) \<times> sim_handle" where
  "sim_read n h =
     (if sim_open h then (Inr (take n (sim_body h)), h\<lparr>sim_body := drop n (sim_body h)\<rparr>)
      else (Inl (LibraryError ''I/O operation on closed file''), h))"

definition sim_libs :: "(string \<times> string) list \<Rightarrow> string \<Rightarrow> sim_handle libs" where
  "sim_libs hdrs body =
     \<lparr>netaddr_valid_ipv6 = sim_valid_ipv6,
      urllib_urlencode = sim_urlencode,
      urllib_pathname2url = posix_pathname2url,
      urlparse_urlparse = sim_urlparse,
      httplib_HTTPConnection = (\<lambda>netloc. Inr (sim_connect netloc)),
      httplib_HTTPSConnection = (\<lambda>netloc. Inr (sim_connect netloc)),
      conn_putrequest = (\<lambda>method url. sim_put method (PyStr url)),
      conn_putheader = sim_put,
      conn_endheaders = sim_put ''endheaders'' (PyStr []),
      conn_send = (\<lambda>data. sim_put ''send'' (PyStr data)),
      conn_getresponse = sim_getresponse,
      urllib2_urlopen = sim_urlopen hdrs body,
      handle_close = sim_close,
      handle_read = sim_read,
      handle_headers_get = (\<lambda>h. map_of (sim_headers h))\<rparr>"






section \<open>Contracts of a transport handle\<close>


text \<open>
  A handle is file-like when a \<^verbatim>\<open>read(n)\<close> that returns hands over the next \<open>n\<close> bytes
  of what remains of the response, or all of it when fewer remain, and consumes them.
\<close>

definition file_like :: "'h libs \<Rightarrow> ('h \<Rightarrow> string) \<Rightarrow> bool" where
  "file_like L remaining =
     (\<forall>n h data h'. handle_read L n h = (Inr data, h') \<longrightarrow>
        data = take n (remaining h) \<and> remaining h' = drop n (remaining h))"



definition close_log :: "'h libs \<Rightarrow> 'h stream \<Rightarrow> log_entry list" where
  "close_log L s = snd (snd (stream_close L s))"


section \<open>GlanceFileRead: chunks in order, then the empty string for ever\<close>

lemma read_after_finish:
  "iter_finished g \<Longrightarrow> GlanceFileRead_read g n = (Inr [], g)"
  by (simp add: GlanceFileRead_read_def get_next_def)

lemma read_calls_finished:
  "iter_finished g \<Longrightarrow> read_calls g ns = (replicate (length ns) (Inr []), g)"
  by (induction ns) (simp_all add: read_after_finish)

lemma read_calls_chunks:
  "\<not> iter_finished g \<Longrightarrow>
   fst (read_calls g ns) =
     map Inr (take (length ns) (glance_read_iter g)) @
     replicate (length ns - length (glance_read_iter g)) (Inr [])"
proof (induction ns arbitrary: g)
  case Nil
  then show ?case by simp
next
  case (Cons n ns)
  show ?case
  proof (cases "glance_read_iter g")
    case Nil
    with Cons.prems have "GlanceFileRead_read g n = (Inr [], g\<lparr>iter_finished := True\<rparr>)"
      by (simp add: GlanceFileRead_read_def get_next_def)
    with Nil show ?thesis
      by (simp add: read_calls_finished)
  next
    case (Cons d ds)
    with Cons.prems have step: "GlanceFileRead_read g n = (Inr d, g\<lparr>glance_read_iter := ds\<rparr>)"
      by (simp add: GlanceFileRead_read_def get_next_def)
    from Cons.prems have "\<not> iter_finished (g\<lparr>glance_read_iter := ds\<rparr>)" by simp
    from Cons.IH [OF this] step Cons show ?thesis
      by (simp add: case_prod_unfold)
  qed
qed

text \<open>
  Claim C6. Over a source of N chunks, N+1 calls of \<^verbatim>\<open>read\<close>, whatever sizes \<open>ns\<close> they
  ask for, return the N chunks in their order and then the empty string; every later call
  (the sizes \<open>ms\<close>) returns the empty string too. Every outcome is a returned value
  (\<open>Inr\<close>), none an exception.
\<close>

theorem chunk_adapter_reads_chunks_then_empty:
  assumes "length ns = Suc (length chunks)"
  shows "fst (read_calls (GlanceFileRead_init chunks) (ns @ ms)) =
           map Inr chunks @ Inr [] # replicate (length ms) (Inr [])"
proof -
  have "\<not> iter_finished (GlanceFileRead_init chunks)"
    by (simp add: GlanceFileRead_init_def)
  from read_calls_chunks [OF this, of "ns @ ms"] assms show ?thesis
    by (simp add: GlanceFileRead_init_def replicate_app_Cons_same Suc_diff_le)
qed

theorem chunk_adapter_reads_chunks_then_empty_witness:
  "fst (read_calls (GlanceFileRead_init [''ab'', [], ''cde'']) ([4, 0, -1, 65536] @ [7, 7])) =
     [Inr ''ab'', Inr [], Inr ''cde'', Inr [], Inr [], Inr []]"
  using chunk_adapter_reads_chunks_then_empty [of "[4, 0, -1, 65536]" "[''ab'', [], ''cde'']" "[7, 7]"]
  by simp


section \<open>The cookie header\<close>

text \<open>
  Claim C5. The cookie header of an empty collection is the empty string; that of a
  non-empty collection is the first cookie's name, \<^verbatim>\<open>=\<close>, and its value, whatever
  cookies follow.
\<close>

theorem cookie_header_first_cookie_only:
  "build_vim_cookie_headers [] = [] \<and>
   build_vim_cookie_headers (first # others) = name first @ ''='' @ value first"
  by simp


section \<open>The SOAP URL\<close>

lemma sim_valid_ipv6_examples:
  "netaddr_valid_ipv6 (sim_libs [] []) ''fe80::1'' = Inr True"
  "netaddr_valid_ipv6 (sim_libs [] []) ''10.0.0.1'' = Inr False"
  "netaddr_valid_ipv6 (sim_libs [] []) [] = Inl (LibraryError ''AddrFormatError'')"
  by (simp_all add: sim_libs_def sim_valid_ipv6_def)

text \<open>
  Claim C9. \<^verbatim>\<open>get_soap_url\<close> puts the host in brackets when \<^verbatim>\<open>netaddr.valid_ipv6\<close>
  says it is a valid IPv6 address, and leaves it bare when it says it is not; when the check
  itself raises, the exception \<open>e\<close> is suppressed and the host is left bare.
\<close>

theorem soap_url_brackets_valid_ipv6:
  "(netaddr_valid_ipv6 L host = Inr True \<longrightarrow>
      get_soap_url L scheme host = scheme @ ''://['' @ host @ '']'') \<and>
   (netaddr_valid_ipv6 L host = Inr False \<longrightarrow>
      get_soap_url L scheme host = scheme @ ''://'' @ host) \<and>
   (netaddr_valid_ipv6 L host = Inl e \<longrightarrow>
      get_soap_url L scheme host = scheme @ ''://'' @ host)"
  by (simp add: get_soap_url_def is_valid_ipv6_def)

theorem soap_url_brackets_valid_ipv6_witness:
  "get_soap_url (sim_libs [] []) ''https'' ''fe80::1'' = ''https://[fe80::1]'' \<and>
   get_soap_url (sim_libs [] []) ''https'' ''10.0.0.1'' = ''https://10.0.0.1'' \<and>
   get_soap_url (sim_libs [] []) ''http'' [] = ''http://''"
  using soap_url_brackets_valid_ipv6 [of "sim_libs [] []" "''fe80::1''" "''https''"]
        soap_url_brackets_valid_ipv6 [of "sim_libs [] []" "''10.0.0.1''" "''https''"]
        soap_url_brackets_valid_ipv6 [of "sim_libs [] []" "[]" "''http''" "LibraryError ''AddrFormatError''"]
  by (simp add: sim_valid_ipv6_examples)


section \<open>The end-of-file flag\<close>

lemma call_eof:
  "eof (call L m s) = (case m of Set_eof e \<Rightarrow> e | _ \<Rightarrow> eof s)"
  by (cases m)
     (auto simp: set_eof_def stream_close_def stream_write_def stream_read_def
        VMwareHTTPFile_close_def VMwareHTTPWriteFile_close_def VMwareHTTPFile_write_def
        VMwareHTTPWriteFile_write_def VMwareHTTPFile_read_def VMwareHTTPReadFile_read_def
        split: stream_class.splits prod.splits option.splits)

lemma calls_append: "calls L (ms @ ns) s = calls L ns (calls L ms s)"
  by (induction ms arbitrary: s) simp_all

lemma calls_without_set_eof:
  "\<forall>b. Set_eof b \<notin> set ms \<Longrightarrow> eof (calls L ms s) = eof s"
proof (induction ms arbitrary: s)
  case Nil
  then show ?case by simp
next
  case (Cons m ms)
  from Cons.prems have "\<forall>b. m \<noteq> Set_eof b" by auto
  then have "eof (call L m s) = eof s"
    unfolding call_eof by (cases m) auto
  with Cons show ?case by simp
qed

lemma calls_keep_true:
  "eof s \<Longrightarrow> Set_eof False \<notin> set ms \<Longrightarrow> eof (calls L ms s)"
proof (induction ms arbitrary: s)
  case Nil
  then show ?case by simp
next
  case (Cons m ms)
  from Cons.prems have "m \<noteq> Set_eof False" and "eof s"
    by auto
  then have "eof (call L m s)"
    unfolding call_eof by (cases m) auto
  with Cons show ?case by simp
qed

text \<open>
  Claim C1, as the code has it. \<^verbatim>\<open>set_eof\<close> is the only method that writes the flag,
  and it stores its argument: every other method call leaves the flag as it was. So the flag
  is unchanged over a sequence of calls without \<^verbatim>\<open>set_eof\<close>, a flag that is true stays
  true over every sequence in which \<^verbatim>\<open>set_eof(False)\<close> does not occur, and after
  \<^verbatim>\<open>set_eof(b)\<close> the flag is \<open>b\<close>, false for \<^verbatim>\<open>set_eof(False)\<close>.
\<close>

theorem eof_changed_by_set_eof_only:
  "get_eof (call L m s) = (case m of Set_eof b \<Rightarrow> b | _ \<Rightarrow> get_eof s) \<and>
   ((\<forall>b. Set_eof b \<notin> set ms) \<longrightarrow> get_eof (calls L ms s) = get_eof s) \<and>
   (get_eof s \<and> Set_eof False \<notin> set ms \<longrightarrow> get_eof (calls L ms s)) \<and>
   get_eof (calls L (ms @ [Set_eof b]) s) = b"
proof -
  have one: "get_eof (call L m s) = (case m of Set_eof b \<Rightarrow> b | _ \<Rightarrow> get_eof s)"
    unfolding get_eof_def by (rule call_eof)
  have none: "(\<forall>b. Set_eof b \<notin> set ms) \<longrightarrow> get_eof (calls L ms s) = get_eof s"
    unfolding get_eof_def using calls_without_set_eof [of ms L s] by blast
  have keep: "get_eof s \<and> Set_eof False \<notin> set ms \<longrightarrow> get_eof (calls L ms s)"
    unfolding get_eof_def using calls_keep_true [of s ms L] by blast
  have last: "get_eof (calls L (ms @ [Set_eof b]) s) = b"
    by (simp add: calls_append get_eof_def set_eof_def)
  from one none keep last show ?thesis by (intro conjI)
qed

theorem eof_changed_by_set_eof_only_witness:
  "get_eof (call (sim_libs [] ''abc'') Close
              (set_eof (VMwareHTTPFile_init VMwareHTTPReadFile (sim_connect ''esx'')) True)) = True \<and>
   get_eof (calls (sim_libs [] ''abc'') [Read 10, Write ''x'', Get_size, Close, Get_eof, Close]
              (VMwareHTTPFile_init VMwareHTTPReadFile (sim_connect ''esx''))) = False \<and>
   get_eof (calls (sim_libs [] ''abc'')
              [Read 10, Write ''x'', Set_eof True, Get_size, Close, Get_eof, Close]
              (set_eof (VMwareHTTPFile_init VMwareHTTPReadFile (sim_connect ''esx'')) True)) \<and>
   get_eof (calls (sim_libs [] ''abc'') ([Set_eof True, Read 10] @ [Set_eof False])
              (VMwareHTTPFile_init VMwareHTTPReadFile (sim_connect ''esx''))) = False"
proof -
  let ?L = "sim_libs [] ''abc''"
  let ?s = "VMwareHTTPFile_init VMwareHTTPReadFile (sim_connect ''esx'')"
  have t: "get_eof (set_eof ?s True)" and f: "get_eof ?s = False"
    by (simp_all add: get_eof_def set_eof_def VMwareHTTPFile_init_def)
  have n: "\<forall>b. Set_eof b \<notin> set [Read 10, Write ''x'', Get_size, Close, Get_eof, Close]"
    by simp
  have k: "Set_eof False \<notin> set [Read 10, Write ''x'', Set_eof True, Get_size, Close, Get_eof, Close]"
    by simp
  from eof_changed_by_set_eof_only [where L = ?L and m = Close and s = "set_eof ?s True"
         and ms = "[Read 10, Write ''x'', Set_eof True, Get_size, Close, Get_eof, Close]"] t k
  have a: "get_eof (call ?L Close (set_eof ?s True)) = True"
    and c: "get_eof (calls ?L [Read 10, Write ''x'', Set_eof True, Get_size, Close, Get_eof, Close]
              (set_eof ?s True))"
    by simp_all
  from eof_changed_by_set_eof_only [where L = ?L and s = ?s
         and ms = "[Read 10, Write ''x'', Get_size, Close, Get_eof, Close]"] n f
  have b: "get_eof (calls ?L [Read 10, Write ''x'', Get_size, Close, Get_eof, Close] ?s) = False"
    by blast
  from eof_changed_by_set_eof_only [where L = ?L and s = ?s
         and ms = "[Set_eof True, Read 10]" and b = False]
  have d: "get_eof (calls ?L ([Set_eof True, Read 10] @ [Set_eof False]) ?s) = False"
    by blast
  from a b c d show ?thesis by (intro conjI)
qed

text \<open>
  The claim as the spec states it fails: on a stream whose flag is true,
  \<^verbatim>\<open>set_eof(False)\<close> makes \<^verbatim>\<open>get_eof()\<close> return false.
\<close>

theorem eof_monotone_counterexample:
  "get_eof (set_eof (VMwareHTTPFile_init VMwareHTTPReadFile (sim_connect ''esx'')) True) \<and>
   \<not> get_eof (calls (sim_libs [] ''abc'') [Set_eof False]
                 (set_eof (VMwareHTTPFile_init VMwareHTTPReadFile (sim_connect ''esx'')) True))"
  by (simp add: get_eof_def set_eof_def)

lemma write_init_fresh:
  "fst (VMwareHTTPWriteFile_init L host dc ds cookies file_path file_size scheme) = Inr ws
   \<Longrightarrow> \<exists>conn. ws = VMwareHTTPFile_init VMwareHTTPWriteFile conn"
  by (auto simp: VMwareHTTPWriteFile_init_def Let_def simp del: run_calls.simps
      split: prod.splits option.splits sum.splits if_splits)

lemma read_init_fresh:
  "fst (VMwareHTTPReadFile_init L host dc ds cookies file_path scheme) = Inr rs
   \<Longrightarrow> \<exists>conn. rs = VMwareHTTPFile_init VMwareHTTPReadFile conn"
  by (auto simp: VMwareHTTPReadFile_init_def Let_def split: sum.splits)

lemma sim_write_init_example:
  "fst (VMwareHTTPWriteFile_init (sim_libs [] []) ''10.0.0.1'' ''dc'' ''ds''
         [\<lparr>name = ''sid'', value = ''52ab''\<rparr>] ''a b/c.vmdk'' (PyInt 3) ''https'') =
   Inr \<lparr>cls = VMwareHTTPWriteFile, eof = False,
        file_handle =
          \<lparr>sim_open = True, sim_peer = ''10.0.0.1'',
           sim_sent =
             [(''PUT'', PyStr ''/folder/a b/c.vmdk?dcPath=dc&dsName=ds''),
              (''User-Agent'', PyStr ''OpenStack-ESX-Adapter''),
              (''Content-Length'', PyInt 3),
              (''Cookie'', PyStr ''sid=52ab''),
              (''endheaders'', PyStr [])],
           sim_headers = [], sim_body = []\<rparr>\<rparr>"
  by (simp add: VMwareHTTPWriteFile_init_def write_base_url_def get_soap_url_def
        is_valid_ipv6_def sim_libs_def sim_valid_ipv6_def sim_urlparse_def Let_def
        sim_connect_def sim_put_def VMwareHTTPFile_init_def USER_AGENT_def)

lemma sim_read_init_example:
  "VMwareHTTPReadFile_init (sim_libs [(''Content-Length'', ''3'')] ''abc'') ''10.0.0.1'' ''dc'' ''ds''
         [\<lparr>name = ''sid'', value = ''52ab''\<rparr>] ''a b/c.vmdk'' ''https'' =
   (Inr \<lparr>cls = VMwareHTTPReadFile, eof = False,
        file_handle =
          \<lparr>sim_open = True,
           sim_peer = ''https://10.0.0.1/folder/a%20b/c.vmdk?dcPath=dc&dsName=ds'',
           sim_sent = [],
           sim_headers = [(''Content-Length'', ''3'')], sim_body = ''abc''\<rparr>\<rparr>,
    [Call_urlopen
       \<lparr>req_url = ''https://10.0.0.1/folder/a%20b/c.vmdk?dcPath=dc&dsName=ds'',
        req_data = None,
        req_headers = [(''User-Agent'', ''OpenStack-ESX-Adapter''), (''Cookie'', ''sid=52ab'')]\<rparr>])"
  by (simp add: VMwareHTTPReadFile_init_def read_request_def read_base_url_def get_soap_url_def
        is_valid_ipv6_def sim_libs_def sim_valid_ipv6_def Let_def sim_urlopen_def
        VMwareHTTPFile_init_def USER_AGENT_def posix_pathname2url_def urllib_quote_def
        quote_byte_def always_safe_def hex_digit_def)

text \<open>
  Claim C10. A stream that has just been constructed, by the base class or by either
  subclass, has a false end-of-file flag; after \<^verbatim>\<open>set_eof(b)\<close> the flag is \<open>b\<close>, and the
  transport handle and the class of the object are what they were.
\<close>

theorem eof_fresh_false_and_set_eof_stores:
  "get_eof (VMwareHTTPFile_init c fh) = False \<and>
   (fst (VMwareHTTPWriteFile_init L host dc ds cookies file_path file_size scheme) = Inr ws
      \<longrightarrow> get_eof ws = False) \<and>
   (fst (VMwareHTTPReadFile_init L host dc ds cookies file_path scheme) = Inr rs
      \<longrightarrow> get_eof rs = False) \<and>
   get_eof (set_eof s b) = b \<and>
   file_handle (set_eof s b) = file_handle s \<and>
   cls (set_eof s b) = cls s"
  using write_init_fresh [of L host dc ds cookies file_path file_size scheme ws]
        read_init_fresh [of L host dc ds cookies file_path scheme rs]
  by (auto simp: get_eof_def set_eof_def VMwareHTTPFile_init_def)

theorem eof_fresh_false_and_set_eof_stores_witness:
  "get_eof (VMwareHTTPFile_init VMwareHTTPFile (sim_connect ''esx'')) = False \<and>
   get_eof (projr (fst (VMwareHTTPWriteFile_init (sim_libs [] []) ''10.0.0.1'' ''dc'' ''ds''
         [\<lparr>name = ''sid'', value = ''52ab''\<rparr>] ''a b/c.vmdk'' (PyInt 3) ''https''))) = False \<and>
   get_eof (projr (fst (VMwareHTTPReadFile_init (sim_libs [(''Content-Length'', ''3'')] ''abc'')
         ''10.0.0.1'' ''dc'' ''ds'' [\<lparr>name = ''sid'', value = ''52ab''\<rparr>] ''a b/c.vmdk''
         ''https''))) = False \<and>
   get_eof (set_eof (VMwareHTTPFile_init VMwareHTTPFile (sim_connect ''esx'')) True) = True \<and>
   file_handle (set_eof (VMwareHTTPFile_init VMwareHTTPFile (sim_connect ''esx'')) True) =
     sim_connect ''esx''"
proof -
  let ?w = "VMwareHTTPWriteFile_init (sim_libs [] []) ''10.0.0.1'' ''dc'' ''ds''
         [\<lparr>name = ''sid'', value = ''52ab''\<rparr>] ''a b/c.vmdk'' (PyInt 3) ''https''"
  let ?r = "VMwareHTTPReadFile_init (sim_libs [(''Content-Length'', ''3'')] ''abc'')
         ''10.0.0.1'' ''dc'' ''ds'' [\<lparr>name = ''sid'', value = ''52ab''\<rparr>] ''a b/c.vmdk''
         ''https''"
  have w: "fst ?w = Inr (projr (fst ?w))"
    by (simp only: sim_write_init_example sum.sel)
  have r: "fst ?r = Inr (projr (fst ?r))"
    by (simp only: sim_read_init_example fst_conv sum.sel)
  have h: "file_handle (VMwareHTTPFile_init VMwareHTTPFile (sim_connect ''esx'')) =
             sim_connect ''esx''"
    by (simp add: VMwareHTTPFile_init_def)
  from eof_fresh_false_and_set_eof_stores
         [where c = VMwareHTTPFile and fh = "sim_connect ''esx''" and L = "sim_libs [] []"
            and host = "''10.0.0.1''" and dc = "''dc''" and ds = "''ds''"
            and cookies = "[\<lparr>name = ''sid'', value = ''52ab''\<rparr>]"
            and file_path = "''a b/c.vmdk''" and file_size = "PyInt 3" and scheme = "''https''"
            and ws = "projr (fst ?w)"
            and s = "VMwareHTTPFile_init VMwareHTTPFile (sim_connect ''esx'')" and b = True]
       eof_fresh_false_and_set_eof_stores
         [where c = VMwareHTTPFile and fh = "sim_connect ''esx''"
            and L = "sim_libs [(''Content-Length'', ''3'')] ''abc''"
            and host = "''10.0.0.1''" and dc = "''dc''" and ds = "''ds''"
            and cookies = "[\<lparr>name = ''sid'', value = ''52ab''\<rparr>]"
            and file_path = "''a b/c.vmdk''" and scheme = "''https''"
            and rs = "projr (fst ?r)"
            and s = "VMwareHTTPFile_init VMwareHTTPFile (sim_connect ''esx'')" and b = True]
       w r h
  show ?thesis by simp
qed



section \<open>The size of the file to be read\<close>

text \<open>
  Claim C2, as the code has it. \<^verbatim>\<open>get_size\<close> of a read stream returns the integer \<open>-1\<close>
  when the response headers have no \<^verbatim>\<open>Content-Length\<close>, and otherwise the value of that
  header as the string the headers hold, not parsed into an integer.
\<close>

theorem get_size_header_text_or_minus_one:
  "(handle_headers_get L (file_handle s) ''Content-Length'' = None \<longrightarrow>
      VMwareHTTPReadFile_get_size L s = Inr (PyInt (- 1))) \<and>
   (handle_headers_get L (file_handle s) ''Content-Length'' = Some v \<longrightarrow>
      VMwareHTTPReadFile_get_size L s = Inr (PyStr v)) \<and>
   (cls s = VMwareHTTPReadFile \<longrightarrow>
      stream_get_size L s = VMwareHTTPReadFile_get_size L s)"
  by (simp add: VMwareHTTPReadFile_get_size_def stream_get_size_def)

theorem get_size_header_text_or_minus_one_witness:
  "stream_get_size (sim_libs [] [])
     (VMwareHTTPFile_init VMwareHTTPReadFile (sim_connect ''esx'')) = Inr (PyInt (- 1)) \<and>
   stream_get_size (sim_libs [] [])
     (VMwareHTTPFile_init VMwareHTTPReadFile
        ((sim_connect ''esx'')\<lparr>sim_headers := [(''Content-Length'', ''3'')]\<rparr>)) = Inr (PyStr ''3'')"
  using get_size_header_text_or_minus_one
          [of "sim_libs [] []" "VMwareHTTPFile_init VMwareHTTPReadFile (sim_connect ''esx'')"]
        get_size_header_text_or_minus_one
          [of "sim_libs [] []"
              "VMwareHTTPFile_init VMwareHTTPReadFile
                 ((sim_connect ''esx'')\<lparr>sim_headers := [(''Content-Length'', ''3'')]\<rparr>)"
              "''3''"]
  by (simp add: sim_libs_def VMwareHTTPFile_init_def sim_connect_def)

text \<open>
  The claim as the spec states it fails: for a response with the header
  \<^verbatim>\<open>Content-Length: 3\<close> the result is the string \<^verbatim>\<open>'3'\<close>, not the integer 3.
\<close>

theorem get_size_integer_counterexample:
  "stream_get_size (sim_libs [(''Content-Length'', ''3'')] ''abc'')
     (projr (fst (VMwareHTTPReadFile_init (sim_libs [(''Content-Length'', ''3'')] ''abc'')
                    ''10.0.0.1'' ''dc'' ''ds'' [\<lparr>name = ''sid'', value = ''52ab''\<rparr>]
                    ''a b/c.vmdk'' ''https'')))
   \<noteq> Inr (PyInt 3)"
  unfolding sim_read_init_example
  by (simp add: stream_get_size_def VMwareHTTPReadFile_get_size_def sim_libs_def)



section \<open>The scheme at construction\<close>

lemma sim_write_url_ftp:
  "write_base_url (sim_libs [] []) ''10.0.0.1'' ''dc'' ''ds'' ''disk.vmdk'' ''ftp'' =
     ''ftp://10.0.0.1/folder/disk.vmdk?dcPath=dc&dsName=ds''"
  by (simp add: write_base_url_def get_soap_url_def is_valid_ipv6_def sim_libs_def
        sim_valid_ipv6_def Let_def)

lemma sim_read_request_example:
  "read_request (sim_libs hdrs body) ''10.0.0.1'' ''dc'' ''ds'' [] ''disk.vmdk'' sch =
     \<lparr>req_url = sch @ ''://10.0.0.1/folder/disk.vmdk?dcPath=dc&dsName=ds'',
      req_data = None,
      req_headers = [(''User-Agent'', ''OpenStack-ESX-Adapter''), (''Cookie'', [])]\<rparr>"
  by (simp add: read_request_def read_base_url_def get_soap_url_def is_valid_ipv6_def
        sim_libs_def sim_valid_ipv6_def Let_def USER_AGENT_def posix_pathname2url_def
        urllib_quote_def quote_byte_def always_safe_def hex_digit_def)

text \<open>
  Claim C3, as the code has it. When the scheme that \<^verbatim>\<open>urlparse\<close> reads back from the
  write URL is neither \<^verbatim>\<open>http\<close> nor \<^verbatim>\<open>https\<close>, the write constructor raises before it
  creates a connection or makes any other call into the transport libraries. The read
  constructor has no test of the scheme: whatever the scheme, it calls
  \<^verbatim>\<open>urllib2.urlopen\<close> on its request, once, and raises or returns a stream as
  \<^verbatim>\<open>urlopen\<close> raises or returns.
\<close>

theorem write_fails_on_unparsed_scheme_read_asks_urlopen:
  "(fst (urlparse_urlparse L (write_base_url L host dc ds file_path scheme))
        \<notin> {''http'', ''https''} \<longrightarrow>
      VMwareHTTPWriteFile_init L host dc ds cookies file_path file_size scheme =
        (Inl (UnboundLocalError ''conn''), [])) \<and>
   VMwareHTTPReadFile_init L host dc ds cookies file_path scheme =
     (map_sum id (VMwareHTTPFile_init VMwareHTTPReadFile)
        (urllib2_urlopen L (read_request L host dc ds cookies file_path scheme)),
      [Call_urlopen (read_request L host dc ds cookies file_path scheme)])"
  by (auto simp: VMwareHTTPWriteFile_init_def VMwareHTTPReadFile_init_def Let_def
      simp del: run_calls.simps split: prod.splits sum.splits)

theorem write_fails_on_unparsed_scheme_read_asks_urlopen_witness:
  "VMwareHTTPWriteFile_init (sim_libs [] []) ''10.0.0.1'' ''dc'' ''ds'' [] ''disk.vmdk''
       (PyInt 3) ''ftp'' = (Inl (UnboundLocalError ''conn''), []) \<and>
   VMwareHTTPReadFile_init (sim_libs [] []) ''10.0.0.1'' ''dc'' ''ds'' [] ''disk.vmdk'' ''smb'' =
     (Inl (LibraryError ''unknown url type''),
      [Call_urlopen
         \<lparr>req_url = ''smb://10.0.0.1/folder/disk.vmdk?dcPath=dc&dsName=ds'',
          req_data = None,
          req_headers = [(''User-Agent'', ''OpenStack-ESX-Adapter''), (''Cookie'', [])]\<rparr>])"
proof -
  have "fst (urlparse_urlparse (sim_libs [] [])
               (write_base_url (sim_libs [] []) ''10.0.0.1'' ''dc'' ''ds'' ''disk.vmdk'' ''ftp''))
        \<notin> {''http'', ''https''}"
    by (simp add: sim_write_url_ftp) (simp add: sim_libs_def sim_urlparse_def Let_def)
  moreover have "urllib2_urlopen (sim_libs [] [])
                   (read_request (sim_libs [] []) ''10.0.0.1'' ''dc'' ''ds'' [] ''disk.vmdk'' ''smb'') =
                 Inl (LibraryError ''unknown url type'')"
    by (simp add: sim_read_request_example) (simp add: sim_libs_def sim_urlopen_def)
  ultimately show ?thesis
    using write_fails_on_unparsed_scheme_read_asks_urlopen
            [of "sim_libs [] []" "''10.0.0.1''" "''dc''" "''ds''" "''disk.vmdk''" "''ftp''" "[]"
                "PyInt 3"]
          write_fails_on_unparsed_scheme_read_asks_urlopen
            [of "sim_libs [] []" "''10.0.0.1''" "''dc''" "''ds''" "''disk.vmdk''" "''smb''" "[]"
                "PyInt 3"]
    by (simp add: sim_read_request_example)
qed

text \<open>
  The claim as the spec states it fails for the read stream: with the scheme \<^verbatim>\<open>ftp\<close>, which
  \<^verbatim>\<open>urllib2\<close> opens, the constructor raises nothing, has called \<^verbatim>\<open>urlopen\<close> on an
  \<^verbatim>\<open>ftp://\<close> URL, and returns a stream.
\<close>

theorem read_stream_unsupported_scheme_counterexample:
  "VMwareHTTPReadFile_init (sim_libs [] ''abc'') ''10.0.0.1'' ''dc'' ''ds'' [] ''disk.vmdk'' ''ftp'' =
     (Inr \<lparr>cls = VMwareHTTPReadFile, eof = False,
           file_handle =
             \<lparr>sim_open = True,
              sim_peer = ''ftp://10.0.0.1/folder/disk.vmdk?dcPath=dc&dsName=ds'',
              sim_sent = [], sim_headers = [], sim_body = ''abc''\<rparr>\<rparr>,
      [Call_urlopen
         \<lparr>req_url = ''ftp://10.0.0.1/folder/disk.vmdk?dcPath=dc&dsName=ds'',
          req_data = None,
          req_headers = [(''User-Agent'', ''OpenStack-ESX-Adapter''), (''Cookie'', [])]\<rparr>])"
  by (simp add: VMwareHTTPReadFile_init_def Let_def sim_read_request_example)
     (simp add: sim_libs_def sim_urlopen_def VMwareHTTPFile_init_def)



section \<open>The file path in the two URLs\<close>

lemma quote_example: "posix_pathname2url ''a b/c.vmdk'' = ''a%20b/c.vmdk''"
  by (simp add: posix_pathname2url_def urllib_quote_def quote_byte_def always_safe_def
        hex_digit_def)

text \<open>
  Claim C4. The write URL is the SOAP URL, \<^verbatim>\<open>/folder/\<close>, the file path as it is,
  \<^verbatim>\<open>?\<close> and the encoded parameters, so it contains the file path verbatim; the read URL has
  \<^verbatim>\<open>urllib.pathname2url(file_path)\<close> in that place, so it contains the escaped path. For
  the path \<^verbatim>\<open>a b/c.vmdk\<close> the write URL contains \<^verbatim>\<open>a b/c.vmdk\<close> and, with the POSIX
  \<^verbatim>\<open>pathname2url\<close>, the read URL contains \<^verbatim>\<open>a%20b/c.vmdk\<close>.
\<close>

theorem write_url_verbatim_read_url_escaped:
  "write_base_url L host dc ds file_path scheme =
     get_soap_url L scheme host @ ''/folder/'' @ file_path @ ''?'' @
     urllib_urlencode L [(''dcPath'', dc), (''dsName'', ds)] \<and>
   sublist file_path (write_base_url L host dc ds file_path scheme) \<and>
   read_base_url L host dc ds file_path scheme =
     get_soap_url L scheme host @ ''/folder/'' @ urllib_pathname2url L file_path @ ''?'' @
     urllib_urlencode L [(''dcPath'', dc), (''dsName'', ds)] \<and>
   sublist (urllib_pathname2url L file_path) (read_base_url L host dc ds file_path scheme) \<and>
   sublist ''a b/c.vmdk'' (write_base_url L host dc ds ''a b/c.vmdk'' scheme) \<and>
   posix_pathname2url ''a b/c.vmdk'' = ''a%20b/c.vmdk'' \<and>
   (urllib_pathname2url L = posix_pathname2url \<longrightarrow>
      sublist ''a%20b/c.vmdk'' (read_base_url L host dc ds ''a b/c.vmdk'' scheme))"
proof -
  let ?q = "urllib_urlencode L [(''dcPath'', dc), (''dsName'', ds)]"
  have w: "write_base_url L host dc ds p scheme =
             get_soap_url L scheme host @ ''/folder/'' @ p @ ''?'' @ ?q" for p
    by (simp add: write_base_url_def Let_def)
  have r: "read_base_url L host dc ds p scheme =
             get_soap_url L scheme host @ ''/folder/'' @ urllib_pathname2url L p @ ''?'' @ ?q" for p
    by (simp add: read_base_url_def Let_def)
  have mid: "sublist x (a @ b @ x @ c)" for x a b c :: string
    using sublist_appendI [of x "a @ b" c] by simp
  have ws: "sublist p (write_base_url L host dc ds p scheme)" for p
    unfolding w by (rule mid)
  have rs: "sublist (urllib_pathname2url L p) (read_base_url L host dc ds p scheme)" for p
    unfolding r by (rule mid)
  have ex: "urllib_pathname2url L = posix_pathname2url \<longrightarrow>
              sublist ''a%20b/c.vmdk'' (read_base_url L host dc ds ''a b/c.vmdk'' scheme)"
  proof
    assume "urllib_pathname2url L = posix_pathname2url"
    with rs [of "''a b/c.vmdk''"] show
      "sublist ''a%20b/c.vmdk'' (read_base_url L host dc ds ''a b/c.vmdk'' scheme)"
      by (simp only: quote_example)
  qed
  from w [of file_path] ws [of file_path] r [of file_path] rs [of file_path]
       ws [of "''a b/c.vmdk''"] quote_example ex
  show ?thesis by (intro conjI) assumption+
qed

theorem write_url_verbatim_read_url_escaped_witness:
  "write_base_url (sim_libs [] []) ''fe80::1'' ''dc'' ''ds'' ''a b/c.vmdk'' ''https'' =
     ''https://[fe80::1]/folder/a b/c.vmdk?dcPath=dc&dsName=ds'' \<and>
   read_base_url (sim_libs [] []) ''fe80::1'' ''dc'' ''ds'' ''a b/c.vmdk'' ''https'' =
     ''https://[fe80::1]/folder/a%20b/c.vmdk?dcPath=dc&dsName=ds'' \<and>
   sublist ''a%20b/c.vmdk''
     (read_base_url (sim_libs [] []) ''fe80::1'' ''dc'' ''ds'' ''a b/c.vmdk'' ''https'')"
proof -
  have p: "urllib_pathname2url (sim_libs [] []) = posix_pathname2url"
    by (simp add: sim_libs_def)
  have g: "get_soap_url (sim_libs [] []) ''https'' ''fe80::1'' = ''https://[fe80::1]''"
    by (simp add: get_soap_url_def is_valid_ipv6_def sim_libs_def sim_valid_ipv6_def)
  have e: "urllib_urlencode (sim_libs [] []) [(''dcPath'', ''dc''), (''dsName'', ''ds'')] =
             ''dcPath=dc&dsName=ds''"
    by (simp add: sim_libs_def)
  from write_url_verbatim_read_url_escaped
         [of "sim_libs [] []" "''fe80::1''" "''dc''" "''ds''" "''a b/c.vmdk''" "''https''"]
  show ?thesis
    by (auto simp: p g e quote_example)
qed



section \<open>Closing a stream\<close>










section \<open>Reading from a read stream\<close>

lemma sim_file_like: "file_like (sim_libs hdrs body) sim_body"
  by (auto simp: file_like_def sim_libs_def sim_read_def split: if_splits)

text \<open>
  Claim C8. \<^verbatim>\<open>read(n)\<close> does not depend on \<open>n\<close>: a read stream asks its handle for 65536
  bytes. On a file-like handle a call that returns hands over the next 65536 bytes of the
  response, so at most 65536 bytes: exactly 65536 while that many remain, and all that
  remains (possibly nothing) when fewer do.
\<close>

theorem read_ignores_size_returns_one_chunk:
  "stream_read L s n = stream_read L s m \<and>
   (cls s = VMwareHTTPReadFile \<longrightarrow>
      stream_read L s n =
        (fst (handle_read L 65536 (file_handle s)),
         s\<lparr>file_handle := snd (handle_read L 65536 (file_handle s))\<rparr>)) \<and>
   (file_like L remaining \<and> cls s = VMwareHTTPReadFile \<and> stream_read L s n = (Inr data, s') \<longrightarrow>
      data = take 65536 (remaining (file_handle s)) \<and>
      length data \<le> 65536 \<and>
      (65536 \<le> length (remaining (file_handle s)) \<longrightarrow> length data = 65536) \<and>
      (length (remaining (file_handle s)) < 65536 \<longrightarrow> data = remaining (file_handle s)) \<and>
      remaining (file_handle s') = drop 65536 (remaining (file_handle s)))"
proof -
  have same: "stream_read L s n = stream_read L s m"
    by (cases "cls s")
       (simp_all add: stream_read_def VMwareHTTPReadFile_read_def VMwareHTTPFile_read_def)
  have shape: "stream_read L s n =
        (fst (handle_read L 65536 (file_handle s)),
         s\<lparr>file_handle := snd (handle_read L 65536 (file_handle s))\<rparr>)"
    if "cls s = VMwareHTTPReadFile"
    using that
    by (simp add: stream_read_def VMwareHTTPReadFile_read_def READ_CHUNKSIZE_def
        split: prod.splits)
  have chunk: "data = take 65536 (remaining (file_handle s)) \<and>
      length data \<le> 65536 \<and>
      (65536 \<le> length (remaining (file_handle s)) \<longrightarrow> length data = 65536) \<and>
      (length (remaining (file_handle s)) < 65536 \<longrightarrow> data = remaining (file_handle s)) \<and>
      remaining (file_handle s') = drop 65536 (remaining (file_handle s))"
    if fl: "file_like L remaining" and c: "cls s = VMwareHTTPReadFile"
      and r: "stream_read L s n = (Inr data, s')"
  proof -
    from shape [OF c] r
    have "handle_read L 65536 (file_handle s) = (Inr data, file_handle s')"
      by (cases "handle_read L 65536 (file_handle s)") auto
    with fl have "data = take 65536 (remaining (file_handle s))"
      and "remaining (file_handle s') = drop 65536 (remaining (file_handle s))"
      unfolding file_like_def by blast+
    then show ?thesis by simp
  qed
  from same shape chunk show ?thesis by blast
qed


theorem read_ignores_size_returns_one_chunk_witness:
  "file_like (sim_libs [] (replicate 70000 CHR ''x'')) sim_body \<and>
   fst (stream_read (sim_libs [] (replicate 70000 CHR ''x''))
          (VMwareHTTPFile_init VMwareHTTPReadFile
             ((sim_connect ''esx'')\<lparr>sim_body := replicate 70000 CHR ''x''\<rparr>)) 10) =
     Inr (replicate 65536 CHR ''x'') \<and>
   length (replicate 65536 CHR ''x'') = (65536 :: nat) \<and>
   sim_body (file_handle (snd (stream_read (sim_libs [] (replicate 70000 CHR ''x''))
          (VMwareHTTPFile_init VMwareHTTPReadFile
             ((sim_connect ''esx'')\<lparr>sim_body := replicate 70000 CHR ''x''\<rparr>)) 10))) =
     replicate 4464 CHR ''x''"
proof -
  let ?L = "sim_libs [] (replicate 70000 CHR ''x'')"
  let ?h = "(sim_connect ''esx'')\<lparr>sim_body := replicate 70000 CHR ''x''\<rparr>"
  let ?s = "VMwareHTTPFile_init VMwareHTTPReadFile ?h"
  let ?s' = "?s\<lparr>file_handle := ?h\<lparr>sim_body := replicate 4464 CHR ''x''\<rparr>\<rparr>"
  have c: "cls ?s = VMwareHTTPReadFile"
    by (simp add: VMwareHTTPFile_init_def)
  have r: "stream_read ?L ?s 10 = (Inr (replicate 65536 CHR ''x''), ?s')"
    by (simp add: stream_read_def VMwareHTTPReadFile_read_def READ_CHUNKSIZE_def
          VMwareHTTPFile_init_def sim_libs_def sim_read_def sim_connect_def)
  have b: "sim_body (file_handle ?s) = replicate 70000 CHR ''x''"
    by (simp add: VMwareHTTPFile_init_def)
  have fl: "file_like ?L sim_body"
    by (rule sim_file_like)
  have t: "sim_body (file_handle ?s') = drop 65536 (sim_body (file_handle ?s))"
    using read_ignores_size_returns_one_chunk
            [of ?L ?s 10 10 sim_body "replicate 65536 CHR ''x''" ?s'] fl c r
    by blast
  have g1: "fst (stream_read ?L ?s 10) = Inr (replicate 65536 CHR ''x'')"
    by (simp only: r fst_conv)
  have g2: "length (replicate 65536 CHR ''x'') = (65536 :: nat)"
    by simp
  have g3: "sim_body (file_handle (snd (stream_read ?L ?s 10))) = replicate 4464 CHR ''x''"
    unfolding r snd_conv t b by simp
  from fl g1 g2 g3 show ?thesis by (intro conjI)
qed

end
